theory Spec2Isabelle
  imports Main
begin

section \<open>The portfolio page: registry, view state and rendering\<close>

text \<open>
  The program is one React component, \<^verbatim>\<open>Portfolio\<close> in \<^verbatim>\<open>src/App.jsx\<close>. It owns two
  state cells, declares the project registry as a local constant, and defines three
  nested components that close over the state cells: \<^verbatim>\<open>ProjectCard\<close>,
  \<^verbatim>\<open>ProjectDetail\<close> and \<^verbatim>\<open>HomePage\<close>. A render pass is modelled as a function from the
  state to the element tree it produces, or to the exception that aborts the pass.
\<close>

subsection \<open>Project records and the registry\<close>

record Decision =
  choice :: string
  reasoning :: string
  tradeoff :: string

record ProjectRecord =
  title :: string
  status :: string
  tagline :: string
  problem :: string
  architecture :: "string list"
  decisions :: "Decision list"
  failures :: "string list"
  "next" :: "string list"

text \<open>
  The two object literals of lines 9 to 99. A string is the list of the bytes the source
  file holds between the quotes (after the escape \<^verbatim>\<open>\'\<close> is undone); the three
  characters outside ASCII in the third trade-off of the blogging project are written as
  their UTF-8 bytes.
\<close>

definition ecommerce :: ProjectRecord where
  \<open>ecommerce = \<lparr>
     title = ''E-Commerce System'',
     status = ''In Progress'',
     tagline = ''A system built to study real failure scenarios'',
     problem = ''Most e-commerce tutorials skip the hard parts: what happens when payment providers timeout, inventory gets oversold, or orders get stuck in limbo. I built this to understand how real systems handle these edge cases.'',
     architecture = [
       ''Order service manages state transitions through a finite state machine'',
       ''Inventory service handles reservations with TTL and deduction logic'',
       ''Payment service integrates with external providers, handling success/failure/timeout states'',
       ''Event-driven communication for async operations like notifications and auditing'',
       ''PostgreSQL for transactional consistency where it matters, Redis for reservation locks''],
     decisions = [
       \<lparr>choice = ''Inventory reservation before payment'',
        reasoning = ''Reserve items with a 10-minute TTL. Release on timeout or payment failure. Prevents overselling without holding stock indefinitely.'',
        tradeoff = ''Adds complexity. Alternative would be optimistic deduction with compensation, but that creates worse UX when stock runs out during checkout.''\<rparr>,
       \<lparr>choice = ''Idempotency keys on order creation'',
        reasoning = ''Network retries can cause duplicate orders. Idempotency keys ensure the same request produces the same result.'',
        tradeoff = ''Requires key storage and expiration logic. Worth it to prevent double-charging customers.''\<rparr>,
       \<lparr>choice = ''Async event processing for non-critical paths'',
        reasoning = ''Confirmation emails and analytics don't need to block order completion. Queue them for async processing.'',
        tradeoff = ''Eventual consistency. Users might complete checkout before receiving email. Acceptable for this use case.''\<rparr>],
     failures = [
       ''Payment provider timeout: order stays in pending state. Built a background job to poll provider status and reconcile.'',
       ''Inventory reservation expires during slow checkout: user sees "item no longer available" after payment. Added pre-payment validation step.'',
       ''Concurrent requests to same inventory: race condition on stock count. Implemented pessimistic locking for inventory reads during reservation.'',
       ''Event processing failure: lost notification events. Added dead letter queue and monitoring.''],
     next = [
       ''Simulate partial outages: database connection pool exhaustion, service degradation'',
       ''Implement saga pattern for distributed transactions across order/payment/inventory'',
       ''Add OpenTelemetry tracing to visualize request flow through services'',
       ''Load test with k6 to identify bottlenecks'']\<rparr>\<close>

definition blogging :: ProjectRecord where
  \<open>blogging = \<lparr>
     title = ''Microservices Blogging Platform'',
     status = ''Completed'',
     tagline = ''Built to understand microservices architecture beyond buzzwords'',
     problem = ''Microservices are often presented as either a silver bullet or over-engineering. I built this to understand the actual complexity: service boundaries, data consistency, and when the cost is worth it.'',
     architecture = [
       ''API Gateway handles routing, rate limiting, and request validation'',
       ''Auth Service manages users, sessions, JWT tokens'',
       ''Content Service handles posts, comments, drafts'',
       ''Notification Service processes email/push notifications asynchronously'',
       ''Each service has its own PostgreSQL database (no shared schema)'',
       ''Redis for session storage and content caching'',
       ''RabbitMQ for async messaging between services'',
       ''S3 for media uploads with pre-signed URLs''],
     decisions = [
       \<lparr>choice = ''Database per service'',
        reasoning = ''Each service owns its data. Changes to one schema don't cascade. Services can scale independently.'',
        tradeoff = ''No foreign keys across services. Joins become API calls. Eventual consistency on reads. Had to implement distributed data patterns.''\<rparr>,
       \<lparr>choice = ''Redis cache with TTL'',
        reasoning = ''Popular posts get hammered. Cache responses for 60 seconds to reduce database load.'',
        tradeoff = ''Stale reads. Cache invalidation on updates is hard. Implemented cache-aside pattern with write-through on critical paths.''\<rparr>,
       \<lparr>choice = ''Async notifications via message queue'',
        reasoning = ''Don't block content creation while sending emails. Notifications aren't critical path.'',
        tradeoff = ''User publishes post, notification arrives seconds later. Acceptable delay. Notifications can fail silently'' @ [CHR 0xC3, CHR 0xA2, CHR 0xE2, CHR 0x82, CHR 0xAC, CHR 0xE2, CHR 0x80, CHR 0x9D] @ ''added retry logic and monitoring.''\<rparr>,
       \<lparr>choice = ''API Gateway as single entry point'',
        reasoning = ''Centralized auth, rate limiting, routing. Services don't need to implement these concerns.'',
        tradeoff = ''Single point of failure. Adds latency. Worth it for simplified service logic and consistent security layer.''\<rparr>],
     failures = [
       ''Cache stampede: popular post cache expires, 100 requests hit database simultaneously. Added probabilistic early expiration.'',
       ''Service-to-service coupling: content service called notification service directly. Changed to event-driven to decouple.'',
       ''Distributed transaction complexity: user publishes post, notification fails. Post is live but users aren't notified. Acceptable for this system, but learned about saga patterns.'',
       ''S3 upload timeout: large images failed silently. Implemented client-side compression and progress tracking.''],
     next = [
       ''Was this worth the complexity? For a blogging platform, probably not. Learned the cost of microservices firsthand.'',
       ''Would use this pattern again for: domains with truly independent lifecycles, teams that need autonomous deployment, services that scale differently.'',
       ''Would not use for: CRUD apps, small teams, startups finding product-market fit.'']\<rparr>\<close>

text \<open>
  The object literal \<^verbatim>\<open>projects\<close> (lines 8 to 100) as the list of its own properties,
  in the order they are written.
\<close>

definition projects :: "(string \<times> ProjectRecord) list" where
  "projects = [(''ecommerce'', ecommerce), (''blogging'', blogging)]"

subsection \<open>View state and the two navigation handlers\<close>

text \<open>
  \<^verbatim>\<open>useState('home')\<close> and \<^verbatim>\<open>useState(null)\<close> (lines 5 and 6): \<open>None\<close> is
  JavaScript's \<^verbatim>\<open>null\<close>.
\<close>

record state =
  currentView :: string
  selectedProject :: "string option"

definition initial :: state where
  "initial = \<lparr>currentView = ''home'', selectedProject = None\<rparr>"

definition setCurrentView :: "string \<Rightarrow> state \<Rightarrow> state" where
  "setCurrentView v st = st\<lparr>currentView := v\<rparr>"

definition setSelectedProject :: "string option \<Rightarrow> state \<Rightarrow> state" where
  "setSelectedProject v st = st\<lparr>selectedProject := v\<rparr>"

text \<open>
  The click handler of a project card (lines 104 to 107):
  \<^verbatim>\<open>() => { setSelectedProject(projectKey); setCurrentView('project'); }\<close>
\<close>

definition selectProject :: "string \<Rightarrow> state \<Rightarrow> state" where
  "selectProject projectKey st =
     setCurrentView ''project'' (setSelectedProject (Some projectKey) st)"

text \<open>
  The click handler of the back button (line 127): \<^verbatim>\<open>() => setCurrentView('home')\<close>
\<close>

definition goHome :: "state \<Rightarrow> state" where
  "goHome st = setCurrentView ''home'' st"

subsection \<open>Property reads and exceptions\<close>

text \<open>
  What \<^verbatim>\<open>projects[key]\<close> evaluates to. An object literal inherits from
  \<^verbatim>\<open>Object.prototype\<close>, so a key that is not an own property still finds a value when it
  names one of the prototype's members; every other key gives \<^verbatim>\<open>undefined\<close>.
\<close>

datatype jsvalue = Undefined | Project ProjectRecord | Inherited string

definition object_prototype_names :: "string list" where
  "object_prototype_names =
     [''constructor'', ''__defineGetter__'', ''__defineSetter__'', ''hasOwnProperty'',
      ''__lookupGetter__'', ''__lookupSetter__'', ''isPrototypeOf'',
      ''propertyIsEnumerable'', ''toString'', ''valueOf'', ''__proto__'',
      ''toLocaleString'']"

definition get_project :: "(string \<times> ProjectRecord) list \<Rightarrow> string \<Rightarrow> jsvalue" where
  "get_project reg k =
     (case map_of reg k of
        Some r \<Rightarrow> Project r
      | None \<Rightarrow> if k \<in> set object_prototype_names then Inherited k else Undefined)"

text \<open>
  Reading a property of \<^verbatim>\<open>undefined\<close> throws a \<^verbatim>\<open>TypeError\<close>. None of the members of
  \<^verbatim>\<open>Object.prototype\<close> has a property named like a field of a project record, so reading
  such a field from one of them gives \<^verbatim>\<open>undefined\<close>: as a child of an element it renders
  nothing, and calling \<^verbatim>\<open>.map\<close> on it throws.
\<close>

datatype error = TypeError

definition ebind :: "error + 'a \<Rightarrow> ('a \<Rightarrow> error + 'b) \<Rightarrow> error + 'b" where
  "ebind m f = (case m of Inl e \<Rightarrow> Inl e | Inr x \<Rightarrow> f x)"

subsection \<open>Element trees\<close>

text \<open>
  The closures passed as \<^verbatim>\<open>onClick\<close>: the one of a project card carries the card's
  \<^verbatim>\<open>projectKey\<close>, the one of the back button carries nothing. \<open>fire\<close> runs one.
\<close>

datatype handler = CardClick string | BackClick

fun fire :: "handler \<Rightarrow> state \<Rightarrow> state" where
  "fire (CardClick projectKey) st = selectProject projectKey st"
| "fire BackClick st = goHome st"

text \<open>
  An element has a tag, its attributes, its click handler if it has one, and its children.
  \<open>Icon\<close> is a component of the icon library with its \<^verbatim>\<open>size\<close>; \<open>Fragment\<close> is
  \<^verbatim>\<open><>...</>\<close>. The \<^verbatim>\<open>key\<close> of a list child is a hint for reconciliation and no part of
  the element, so it is left out.
\<close>

datatype node =
    Text string
  | Icon string nat
  | Elem string "(string \<times> string) list" "handler option" "node list"
  | Fragment "node list"

abbreviation el :: "string \<Rightarrow> string \<Rightarrow> node list \<Rightarrow> node" where
  "el tag cls kids \<equiv> Elem tag [(''className'', cls)] None kids"

fun text_field :: "(ProjectRecord \<Rightarrow> string) \<Rightarrow> jsvalue \<Rightarrow> error + node list" where
  "text_field f Undefined = Inl TypeError"
| "text_field f (Project r) = Inr [Text (f r)]"
| "text_field f (Inherited m) = Inr []"

fun map_field :: "(ProjectRecord \<Rightarrow> 'a list) \<Rightarrow> ('a \<Rightarrow> node) \<Rightarrow> jsvalue \<Rightarrow> error + node list" where
  "map_field f g Undefined = Inl TypeError"
| "map_field f g (Project r) = Inr (map g (f r))"
| "map_field f g (Inherited m) = Inl TypeError"

subsection \<open>The components\<close>

text \<open>\<^verbatim>\<open>ProjectCard\<close>, lines 102 to 122.\<close>

definition ProjectCard :: "string \<Rightarrow> jsvalue \<Rightarrow> error + node" where
  "ProjectCard projectKey project =
     ebind (text_field title project) (\<lambda>t.
     ebind (text_field status project) (\<lambda>s.
     ebind (text_field tagline project) (\<lambda>g.
     Inr (Elem ''div''
       [(''className'', ''border border-gray-800 p-8 hover:border-gray-600 transition-colors cursor-pointer group'')]
       (Some (CardClick projectKey))
       [el ''div'' ''flex justify-between items-start mb-3''
          [el ''h3'' ''text-xl font-light tracking-wide group-hover:text-gray-300 transition-colors'' t,
           el ''span'' ''text-xs text-gray-500 uppercase tracking-wider'' s],
        el ''p'' ''text-gray-400 text-sm leading-relaxed'' g]))))"

text \<open>
  The three list sections of the detail view map the same paragraph over their items
  (lines 148, 174 and 187); a decision is a block of three (lines 159 to 165).
\<close>

definition item_paragraph :: "string \<Rightarrow> node" where
  "item_paragraph item =
     el ''p'' ''text-gray-400 leading-relaxed pl-4 border-l border-gray-800'' [Text item]"

definition decision_block :: "Decision \<Rightarrow> node" where
  "decision_block decision =
     el ''div'' ''border-l border-gray-800 pl-6''
       [el ''h3'' ''text-gray-300 mb-2 font-light'' [Text (choice decision)],
        el ''p'' ''text-gray-400 text-sm leading-relaxed mb-3'' [Text (reasoning decision)],
        el ''p'' ''text-gray-500 text-sm leading-relaxed italic''
          [Text ''Trade-off: '', Text (tradeoff decision)]]"

text \<open>
  \<^verbatim>\<open>ProjectDetail\<close>, lines 124 to 194. It reads the state cell \<^verbatim>\<open>selectedProject\<close> of the
  enclosing component (line 183), here its first argument. The children are evaluated in
  the order they are written.
\<close>

definition ProjectDetail :: "string option \<Rightarrow> jsvalue \<Rightarrow> error + node" where
  "ProjectDetail selected project =
     ebind (text_field title project) (\<lambda>t.
     ebind (text_field status project) (\<lambda>s.
     ebind (text_field problem project) (\<lambda>p.
     ebind (map_field architecture item_paragraph project) (\<lambda>arch.
     ebind (map_field decisions decision_block project) (\<lambda>decs.
     ebind (map_field failures item_paragraph project) (\<lambda>fails.
     ebind (map_field next item_paragraph project) (\<lambda>nexts.
     Inr (el ''div'' ''max-w-3xl mx-auto''
       [Elem ''button''
          [(''className'', ''flex items-center gap-2 text-gray-400 hover:text-gray-200 mb-12 transition-colors'')]
          (Some BackClick)
          [Icon ''ArrowLeft'' 16, el ''span'' ''text-sm'' [Text ''Back'']],
        el ''div'' ''mb-12''
          [el ''h1'' ''text-3xl font-light tracking-wide mb-3'' t,
           el ''p'' ''text-gray-400 text-sm uppercase tracking-wider'' s],
        el ''section'' ''mb-16''
          [el ''h2'' ''text-xl font-light mb-4 text-gray-300'' [Text ''Problem''],
           el ''p'' ''text-gray-400 leading-relaxed'' p],
        el ''section'' ''mb-16''
          [el ''h2'' ''text-xl font-light mb-4 text-gray-300'' [Text ''Architecture''],
           el ''div'' ''space-y-3'' arch],
        el ''section'' ''mb-16''
          [el ''h2'' ''text-xl font-light mb-6 text-gray-300'' [Text ''Key Decisions''],
           el ''div'' ''space-y-8'' decs],
        el ''section'' ''mb-16''
          [el ''h2'' ''text-xl font-light mb-4 text-gray-300'' [Text ''Failure Modes''],
           el ''div'' ''space-y-3'' fails],
        Elem ''section'' [] None
          [el ''h2'' ''text-xl font-light mb-4 text-gray-300''
             [Text (if selected = Some ''ecommerce'' then ''What's Next'' else ''Lessons Learned'')],
           el ''div'' ''space-y-3'' nexts]]))))))))"

text \<open>\<^verbatim>\<open>HomePage\<close>, lines 196 to 245. It reads the registry of the enclosing component.\<close>

definition HomePage :: "(string \<times> ProjectRecord) list \<Rightarrow> error + node" where
  "HomePage reg =
     ebind (ProjectCard ''ecommerce'' (get_project reg ''ecommerce'')) (\<lambda>card1.
     ebind (ProjectCard ''blogging'' (get_project reg ''blogging'')) (\<lambda>card2.
     Inr (Fragment
       [el ''section'' ''min-h-[60vh] flex flex-col justify-center items-center text-center mb-32''
          [el ''h1'' ''text-4xl md:text-5xl font-light tracking-wide mb-6 leading-tight''
             [Text ''Creativity doesn't ask for permission.''],
           el ''p'' ''text-gray-400 text-lg max-w-2xl leading-relaxed''
             [Text ''From every era, someone chooses to build differently. I'm choosing to be one of them.''],
           el ''div'' ''mt-12 w-40 h-40 bg-gray-800 rounded-sm flex items-center justify-center text-gray-600 text-xs''
             [Text ''Your headshot here'']],
        el ''section'' ''mb-32''
          [el ''h2'' ''text-2xl font-light tracking-wide mb-8 text-gray-300'' [Text ''Featured Projects''],
           el ''div'' ''grid gap-6'' [card1, card2]],
        el ''section'' ''mb-32''
          [el ''h2'' ''text-2xl font-light tracking-wide mb-6 text-gray-300'' [Text ''About''],
           el ''p'' ''text-gray-400 leading-relaxed max-w-2xl''
             [Text ''I'm a backend engineer focused on understanding how real systems behave under pressure. I build projects to explore architecture trade-offs, failure modes, and the decisions tutorials don't teach. Each system is a study in what breaks first and why.'']],
        Elem ''section'' [] None
          [el ''h2'' ''text-2xl font-light tracking-wide mb-6 text-gray-300'' [Text ''Contact''],
           el ''div'' ''flex gap-8''
             [Elem ''a'' [(''href'', ''https://linkedin.com''), (''className'', ''flex items-center gap-2 text-gray-400 hover:text-gray-200 transition-colors'')] None
                [Icon ''Linkedin'' 18, el ''span'' ''text-sm'' [Text ''LinkedIn'']],
              Elem ''a'' [(''href'', ''https://github.com''), (''className'', ''flex items-center gap-2 text-gray-400 hover:text-gray-200 transition-colors'')] None
                [Icon ''Github'' 18, el ''span'' ''text-sm'' [Text ''GitHub'']],
              Elem ''a'' [(''href'', ''mailto:contact@example.com''), (''className'', ''flex items-center gap-2 text-gray-400 hover:text-gray-200 transition-colors'')] None
                [Icon ''Mail'' 18, el ''span'' ''text-sm'' [Text ''Email'']]]]])))"

text \<open>
  What \<^verbatim>\<open>Portfolio\<close> returns, lines 247 to 256. \<^verbatim>\<open>a && b\<close> is \<^verbatim>\<open>a\<close> when \<^verbatim>\<open>a\<close> is
  falsy, and a child that is \<^verbatim>\<open>false\<close>, \<^verbatim>\<open>null\<close> or the empty string renders nothing.
  Of the values \<^verbatim>\<open>selectedProject\<close> takes, \<^verbatim>\<open>null\<close> and the empty string are falsy.
\<close>

definition page_shell :: "node list \<Rightarrow> node" where
  "page_shell kids =
     el ''div'' ''min-h-screen bg-black text-white''
       [el ''div'' ''max-w-5xl mx-auto px-6 py-16 md:py-24'' kids]"

definition home_slot :: "(string \<times> ProjectRecord) list \<Rightarrow> state \<Rightarrow> error + node list" where
  "home_slot reg st =
     (if currentView st = ''home'' then ebind (HomePage reg) (\<lambda>h. Inr [h]) else Inr [])"

definition detail_slot :: "(string \<times> ProjectRecord) list \<Rightarrow> state \<Rightarrow> error + node list" where
  "detail_slot reg st =
     (if currentView st = ''project'' then
        (case selectedProject st of
           None \<Rightarrow> Inr []
         | Some k \<Rightarrow>
             if k = [] then Inr []
             else ebind (ProjectDetail (selectedProject st) (get_project reg k)) (\<lambda>d. Inr [d]))
      else Inr [])"

definition Portfolio :: "(string \<times> ProjectRecord) list \<Rightarrow> state \<Rightarrow> error + node" where
  "Portfolio reg st =
     ebind (home_slot reg st) (\<lambda>a.
     ebind (detail_slot reg st) (\<lambda>b.
     Inr (page_shell (a @ b))))"

subsection \<open>Reading a rendered tree\<close>

text \<open>
  The elements with a given tag, the text an element shows, and the click handlers a tree
  offers, all in document order.
\<close>

fun elems :: "string \<Rightarrow> node \<Rightarrow> node list" where
  "elems t (Text s) = []"
| "elems t (Icon n k) = []"
| "elems t (Elem tag as h kids) =
     (if tag = t then [Elem tag as h kids] else []) @ concat (map (elems t) kids)"
| "elems t (Fragment kids) = concat (map (elems t) kids)"

fun text_of :: "node \<Rightarrow> string" where
  "text_of (Text s) = s"
| "text_of (Icon n k) = []"
| "text_of (Elem tag as h kids) = concat (map text_of kids)"
| "text_of (Fragment kids) = concat (map text_of kids)"

definition headings :: "string \<Rightarrow> node \<Rightarrow> string list" where
  "headings t v = map text_of (elems t v)"

fun clickables :: "node \<Rightarrow> (handler \<times> node) list" where
  "clickables (Text s) = []"
| "clickables (Icon n k) = []"
| "clickables (Elem tag as h kids) =
     (case h of None \<Rightarrow> [] | Some c \<Rightarrow> [(c, Elem tag as h kids)])
     @ concat (map clickables kids)"
| "clickables (Fragment kids) = concat (map clickables kids)"

definition final_heading :: "node \<Rightarrow> string option" where
  "final_heading v = (case rev (headings ''h2'' v) of [] \<Rightarrow> None | h # _ \<Rightarrow> Some h)"

subsection \<open>The states a session can reach\<close>

text \<open>
  A session starts in \<open>initial\<close>. The state changes when the user clicks an element of
  the page on screen, which runs that element's handler (\<open>click\<close>). The last two rules
  let the two handlers run in any order, whatever page is on screen: \<open>selectProject\<close>
  with a key of the registry, and \<open>goHome\<close>.
\<close>

inductive reachable :: "state \<Rightarrow> bool" where
  start: "reachable initial"
| click: "reachable st \<Longrightarrow> Portfolio projects st = Inr v
          \<Longrightarrow> c \<in> set (map fst (clickables v)) \<Longrightarrow> reachable (fire c st)"
| select: "reachable st \<Longrightarrow> k \<in> set (map fst projects) \<Longrightarrow> reachable (selectProject k st)"
| home: "reachable st \<Longrightarrow> reachable (goHome st)"

section \<open>Facts about the components\<close>

lemma elems_items: "concat (map (elems t \<circ> item_paragraph) xs) = (if t = ''p'' then map item_paragraph xs else [])"
  by (induction xs) (auto simp: item_paragraph_def)

lemma clickables_items: "concat (map (clickables \<circ> item_paragraph) xs) = []"
  by (induction xs) (simp_all add: item_paragraph_def)

lemma text_of_item: "text_of (item_paragraph x) = x"
  by (simp add: item_paragraph_def)

lemma clickables_decisions: "concat (map (clickables \<circ> decision_block) ds) = []"
  by (induction ds) (simp_all add: decision_block_def)

lemma elems_decisions_other:
  "t \<noteq> ''div'' \<Longrightarrow> t \<noteq> ''h3'' \<Longrightarrow> t \<noteq> ''p'' \<Longrightarrow> concat (map (elems t \<circ> decision_block) ds) = []"
  by (induction ds) (simp_all add: decision_block_def)

lemma headings_p_decisions:
  "map text_of (concat (map (elems ''p'' \<circ> decision_block) ds))
     = concat (map (\<lambda>d. [reasoning d, ''Trade-off: '' @ tradeoff d]) ds)"
  by (induction ds) (simp_all add: decision_block_def)

lemma ProjectDetail_Project:
  "ProjectDetail sel (Project r) = Inr (el ''div'' ''max-w-3xl mx-auto''
       [Elem ''button''
          [(''className'', ''flex items-center gap-2 text-gray-400 hover:text-gray-200 mb-12 transition-colors'')]
          (Some BackClick)
          [Icon ''ArrowLeft'' 16, el ''span'' ''text-sm'' [Text ''Back'']],
        el ''div'' ''mb-12''
          [el ''h1'' ''text-3xl font-light tracking-wide mb-3'' [Text (title r)],
           el ''p'' ''text-gray-400 text-sm uppercase tracking-wider'' [Text (status r)]],
        el ''section'' ''mb-16''
          [el ''h2'' ''text-xl font-light mb-4 text-gray-300'' [Text ''Problem''],
           el ''p'' ''text-gray-400 leading-relaxed'' [Text (problem r)]],
        el ''section'' ''mb-16''
          [el ''h2'' ''text-xl font-light mb-4 text-gray-300'' [Text ''Architecture''],
           el ''div'' ''space-y-3'' (map item_paragraph (architecture r))],
        el ''section'' ''mb-16''
          [el ''h2'' ''text-xl font-light mb-6 text-gray-300'' [Text ''Key Decisions''],
           el ''div'' ''space-y-8'' (map decision_block (decisions r))],
        el ''section'' ''mb-16''
          [el ''h2'' ''text-xl font-light mb-4 text-gray-300'' [Text ''Failure Modes''],
           el ''div'' ''space-y-3'' (map item_paragraph (failures r))],
        Elem ''section'' [] None
          [el ''h2'' ''text-xl font-light mb-4 text-gray-300''
             [Text (if sel = Some ''ecommerce'' then ''What's Next'' else ''Lessons Learned'')],
           el ''div'' ''space-y-3'' (map item_paragraph (next r))]])"
  by (simp add: ProjectDetail_def ebind_def)

lemma ProjectDetail_h2:
  "ProjectDetail sel (Project r) = Inr d \<Longrightarrow> headings ''h2'' d = [''Problem'', ''Architecture'', ''Key Decisions'', ''Failure Modes'',
       if sel = Some ''ecommerce'' then ''What's Next'' else ''Lessons Learned'']"
  unfolding ProjectDetail_Project headings_def
  by (auto simp: elems_items elems_decisions_other)

lemma ProjectDetail_h1:
  "ProjectDetail sel (Project r) = Inr d \<Longrightarrow> headings ''h1'' d = [title r]"
  unfolding ProjectDetail_Project headings_def
  by (auto simp: elems_items elems_decisions_other)

lemma ProjectDetail_clickables:
  "ProjectDetail sel p = Inr d \<Longrightarrow> map fst (clickables d) = [BackClick]"
  by (cases p) (auto simp: ProjectDetail_Project clickables_items clickables_decisions ProjectDetail_def ebind_def)

lemma ProjectDetail_missing:
  "ProjectDetail sel Undefined = Inl TypeError" "ProjectDetail sel (Inherited m) = Inl TypeError"
  by (simp_all add: ProjectDetail_def ebind_def)

lemma registry_keys:
  "map_of projects k = Some r \<longleftrightarrow> (k = ''ecommerce'' \<and> r = ecommerce) \<or> (k = ''blogging'' \<and> r = blogging)"
  by (auto simp: projects_def)

lemma get_project_own: "map_of reg k = Some r \<Longrightarrow> get_project reg k = Project r"
  by (simp add: get_project_def)

lemma get_project_registry:
  "get_project projects ''ecommerce'' = Project ecommerce"
  "get_project projects ''blogging'' = Project blogging"
  by (simp_all add: get_project_def projects_def)

lemma selectProject_state:
  "currentView (selectProject k st) = ''project''" "selectedProject (selectProject k st) = Some k"
  by (simp_all add: selectProject_def setCurrentView_def setSelectedProject_def)

lemma goHome_state:
  "currentView (goHome st) = ''home''" "selectedProject (goHome st) = selectedProject st"
  by (simp_all add: goHome_def setCurrentView_def)

lemma Portfolio_home:
  "currentView st = ''home'' \<Longrightarrow> Portfolio reg st = ebind (HomePage reg) (\<lambda>h. Inr (page_shell [h]))"
  by (cases "HomePage reg") (simp_all add: Portfolio_def home_slot_def detail_slot_def ebind_def)

lemma Portfolio_project:
  "currentView st = ''project'' \<Longrightarrow> selectedProject st = Some k \<Longrightarrow> k \<noteq> [] \<Longrightarrow>
   Portfolio reg st = ebind (ProjectDetail (Some k) (get_project reg k)) (\<lambda>d. Inr (page_shell [d]))"
  by (cases "ProjectDetail (Some k) (get_project reg k)")
     (simp_all add: Portfolio_def home_slot_def detail_slot_def ebind_def)

lemma Portfolio_empty:
  "currentView st = ''project'' \<Longrightarrow> selectedProject st = None \<or> selectedProject st = Some [] \<Longrightarrow>
   Portfolio reg st = Inr (page_shell [])"
  by (auto simp add: Portfolio_def home_slot_def detail_slot_def ebind_def)

lemma Portfolio_other:
  "currentView st \<noteq> ''project'' \<Longrightarrow> currentView st \<noteq> ''home'' \<Longrightarrow>
   Portfolio reg st = Inr (page_shell [])"
  by (auto simp add: Portfolio_def home_slot_def detail_slot_def ebind_def)

lemma ProjectCard_Project:
  "ProjectCard k (Project r) = Inr (Elem ''div''
       [(''className'', ''border border-gray-800 p-8 hover:border-gray-600 transition-colors cursor-pointer group'')]
       (Some (CardClick k))
       [el ''div'' ''flex justify-between items-start mb-3''
          [el ''h3'' ''text-xl font-light tracking-wide group-hover:text-gray-300 transition-colors'' [Text (title r)],
           el ''span'' ''text-xs text-gray-500 uppercase tracking-wider'' [Text (status r)]],
        el ''p'' ''text-gray-400 text-sm leading-relaxed'' [Text (tagline r)]])"
  by (simp add: ProjectCard_def ebind_def)

lemma page_shell_clickables: "clickables (page_shell kids) = concat (map clickables kids)"
  by (simp add: page_shell_def)

lemma page_shell_elems: "t \<noteq> ''div'' \<Longrightarrow> elems t (page_shell kids) = concat (map (elems t) kids)"
  by (simp add: page_shell_def)

lemma HomePage_projects:
  "\<exists>h. HomePage projects = Inr h
     \<and> map fst (clickables h) = [CardClick ''ecommerce'', CardClick ''blogging'']
     \<and> map (headings ''h3'' \<circ> snd) (clickables h) = [[title ecommerce], [title blogging]]
     \<and> headings ''h3'' h = [title ecommerce, title blogging]"
  by (simp add: HomePage_def ebind_def get_project_registry ProjectCard_Project headings_def)

lemma view_cases:
  obtains (home) "currentView st = ''home''"
    | (detail) k where "currentView st = ''project''" "selectedProject st = Some k" "k \<noteq> []"
    | (empty) "currentView st = ''project''" "selectedProject st = None \<or> selectedProject st = Some []"
    | (other) "currentView st \<noteq> ''project''" "currentView st \<noteq> ''home''"
proof (cases "currentView st = ''home''")
  case True
  then show ?thesis by (rule home)
next
  case nh: False
  show ?thesis
  proof (cases "currentView st = ''project''")
    case False
    then show ?thesis using nh by (rule other)
  next
    case p: True
    show ?thesis
    proof (cases "selectedProject st")
      case None
      then show ?thesis using p empty by blast
    next
      case (Some k)
      show ?thesis
      proof (cases "k = []")
        case True
        with Some p empty show ?thesis by blast
      next
        case False
        with Some p detail show ?thesis by blast
      qed
    qed
  qed
qed

lemma HomePage_view:
  obtains h where "HomePage projects = Inr h"
     and "map fst (clickables h) = [CardClick ''ecommerce'', CardClick ''blogging'']"
     and "map (headings ''h3'' \<circ> snd) (clickables h) = [[title ecommerce], [title blogging]]"
     and "headings ''h3'' h = [title ecommerce, title blogging]"
proof -
  from HomePage_projects show thesis
    by (elim exE conjE) (rule that)
qed

lemma offered_handlers:
  assumes "Portfolio projects st = Inr v" and "c \<in> set (map fst (clickables v))"
  shows "c = CardClick ''ecommerce'' \<or> c = CardClick ''blogging'' \<or> c = BackClick"
proof (cases st rule: view_cases)
  case home
  obtain h where h: "HomePage projects = Inr h"
      "map fst (clickables h) = [CardClick ''ecommerce'', CardClick ''blogging'']"
    by (rule HomePage_view)
  have "Portfolio projects st = Inr (page_shell [h])"
    unfolding Portfolio_home[OF home] h(1) by (simp add: ebind_def)
  with assms(1) have v: "v = page_shell [h]" by simp
  have "map fst (clickables v) = [CardClick ''ecommerce'', CardClick ''blogging'']"
    unfolding v page_shell_clickables using h(2) by simp
  with assms(2) have "c = CardClick ''ecommerce'' \<or> c = CardClick ''blogging''" by simp
  then show ?thesis by (elim disjE) simp_all
next
  case (detail k)
  have eq: "Portfolio projects st
      = ebind (ProjectDetail (Some k) (get_project projects k)) (\<lambda>d. Inr (page_shell [d]))"
    using detail by (rule Portfolio_project)
  from assms(1) obtain d
    where d: "ProjectDetail (Some k) (get_project projects k) = Inr d" "v = page_shell [d]"
    unfolding eq by (cases "ProjectDetail (Some k) (get_project projects k)") (simp_all add: ebind_def)
  have "map fst (clickables v) = [BackClick]"
    unfolding d(2) page_shell_clickables using ProjectDetail_clickables[OF d(1)] by simp
  with assms(2) show ?thesis by simp
next
  case empty
  have "Portfolio projects st = Inr (page_shell [])" using empty by (rule Portfolio_empty)
  with assms(1) have "v = page_shell []" by simp
  with assms(2) show ?thesis by (simp add: page_shell_clickables)
next
  case other
  have "Portfolio projects st = Inr (page_shell [])" using other by (rule Portfolio_other)
  with assms(1) have "v = page_shell []" by simp
  with assms(2) show ?thesis by (simp add: page_shell_clickables)
qed

lemma registry_key_nonempty: "map_of projects k = Some r \<Longrightarrow> k \<noteq> []"
  by (simp add: projects_def split: if_splits)

lemma Portfolio_registered:
  assumes "map_of projects k = Some r"
  shows "Portfolio projects (selectProject k st)
     = ebind (ProjectDetail (Some k) (Project r)) (\<lambda>d. Inr (page_shell [d]))"
  using Portfolio_project[of "selectProject k st" k projects, OF selectProject_state registry_key_nonempty[OF assms]]
  by (simp add: get_project_own[OF assms])

lemma page_shell_headings:
  "t \<noteq> ''div'' \<Longrightarrow> headings t (page_shell [d]) = headings t d"
  by (simp add: headings_def page_shell_elems)

lemma get_project_missing:
  "map_of reg k = None \<Longrightarrow> get_project reg k = Undefined \<or> get_project reg k = Inherited k"
  by (simp add: get_project_def)

lemma ProjectDetail_no_record:
  assumes "map_of reg k = None"
  shows "ProjectDetail sel (get_project reg k) = Inl TypeError"
  using get_project_missing[OF assms] by (elim disjE) (simp_all add: ProjectDetail_missing)

lemma Portfolio_home_state:
  "currentView st = ''home'' \<Longrightarrow> Portfolio reg st = Portfolio reg initial"
  by (simp add: Portfolio_home initial_def)

lemma texts_of_items: "map (text_of \<circ> item_paragraph) xs = xs"
  by (induction xs) (simp_all add: item_paragraph_def)

lemma headings_h3_decisions:
  "map text_of (concat (map (elems ''h3'' \<circ> decision_block) ds)) = map choice ds"
  by (induction ds) (simp_all add: decision_block_def)

lemma ProjectDetail_sections:
  assumes "ProjectDetail sel (Project r) = Inr d"
  shows "map (headings ''h2'') (elems ''section'' d)
      = [[''Problem''], [''Architecture''], [''Key Decisions''], [''Failure Modes''],
         [if sel = Some ''ecommerce'' then ''What's Next'' else ''Lessons Learned'']]"
    and "map (headings ''p'') (elems ''section'' d)
      = [[problem r], architecture r,
         concat (map (\<lambda>c. [reasoning c, ''Trade-off: '' @ tradeoff c]) (decisions r)),
         failures r, next r]"
    and "map (headings ''h3'') (elems ''section'' d)
      = [[], [], map choice (decisions r), [], []]"
  using assms unfolding ProjectDetail_Project headings_def
  by (auto simp: elems_items elems_decisions_other headings_p_decisions headings_h3_decisions
      texts_of_items)

lemma registry_status:
  "status ecommerce = ''In Progress''" "status blogging = ''Completed''"
  by (simp_all add: ecommerce_def blogging_def)

lemma final_heading_detail:
  assumes "ProjectDetail sel (Project r) = Inr d"
  shows "final_heading (page_shell [d])
     = Some (if sel = Some ''ecommerce'' then ''What's Next'' else ''Lessons Learned'')"
  unfolding final_heading_def page_shell_headings[of "''h2''" d, simplified] ProjectDetail_h2[OF assms]
  by simp

section \<open>Properties of navigation and rendering\<close>

text \<open>
  Claim C1. For every key \<open>k\<close> of the registry, with record \<open>r\<close>, and from any
  state: after \<open>selectProject k\<close> the state has \<open>currentView = project\<close> and
  \<open>selectedProject = k\<close>, the page rendered from it is the shell around the detail view
  of \<open>r\<close>, and the only \<open>h1\<close> of that view, its header title, shows \<open>title r\<close>.
\<close>

theorem selectProject_shows_project:
  assumes "map_of projects k = Some r"
  shows "currentView (selectProject k st) = ''project''
     \<and> selectedProject (selectProject k st) = Some k
     \<and> (\<exists>d. ProjectDetail (Some k) (Project r) = Inr d
           \<and> Portfolio projects (selectProject k st) = Inr (page_shell [d])
           \<and> headings ''h1'' d = [title r]
           \<and> headings ''h1'' (page_shell [d]) = [title r])"
proof -
  obtain d where d: "ProjectDetail (Some k) (Project r) = Inr d"
    by (simp add: ProjectDetail_Project)
  have "Portfolio projects (selectProject k st) = Inr (page_shell [d])"
    unfolding Portfolio_registered[OF assms] d by (simp add: ebind_def)
  moreover have "headings ''h1'' d = [title r]" using d by (rule ProjectDetail_h1)
  moreover from this have "headings ''h1'' (page_shell [d]) = [title r]"
    by (simp add: page_shell_headings)
  ultimately show ?thesis using d by (simp add: selectProject_state)
qed

text \<open>Claim C1 at the key \<open>blogging\<close>, from the initial state.\<close>

theorem selectProject_shows_project_witness:
  "map_of projects ''blogging'' = Some blogging
   \<and> currentView (selectProject ''blogging'' initial) = ''project''
   \<and> selectedProject (selectProject ''blogging'' initial) = Some ''blogging''
   \<and> (\<exists>d. ProjectDetail (Some ''blogging'') (Project blogging) = Inr d
         \<and> Portfolio projects (selectProject ''blogging'' initial) = Inr (page_shell [d])
         \<and> headings ''h1'' d = [title blogging]
         \<and> headings ''h1'' (page_shell [d]) = [title blogging])
   \<and> title blogging = ''Microservices Blogging Platform''"
proof -
  have h: "map_of projects ''blogging'' = Some blogging" by (simp add: projects_def)
  have t: "title blogging = ''Microservices Blogging Platform''" by (simp add: blogging_def)
  from h selectProject_shows_project[OF h, of initial] t show ?thesis by (intro conjI) simp_all
qed

text \<open>
  Claim C2. In every state a session reaches from the initial state, by clicking what the
  page offers (the two cards run \<open>selectProject\<close> with their key, the back button runs
  \<open>goHome\<close>) or by any sequence of \<open>selectProject\<close> with a key of the registry and
  \<open>goHome\<close>, \<open>currentView = project\<close> implies that \<open>selectedProject\<close> holds a key
  of the registry.
\<close>

theorem selected_key_valid_when_reachable:
  assumes "reachable st" and "currentView st = ''project''"
  shows "\<exists>k. selectedProject st = Some k \<and> k \<in> set (map fst projects)"
  using assms
proof (induction rule: reachable.induct)
  case start
  then show ?case by (simp add: initial_def)
next
  case (click st v c)
  from offered_handlers[OF click.hyps(2,3)]
  consider "c = CardClick ''ecommerce''" | "c = CardClick ''blogging''" | "c = BackClick"
    by (elim disjE)
  then show ?case
  proof cases
    case 1
    then show ?thesis by (simp add: selectProject_state projects_def)
  next
    case 2
    then show ?thesis by (simp add: selectProject_state projects_def)
  next
    case 3
    with click.prems show ?thesis by (simp add: goHome_state)
  qed
next
  case (select st k)
  then show ?case by (simp add: selectProject_state)
next
  case (home st)
  then show ?case by (simp add: goHome_state)
qed

text \<open>Claim C2 at the state reached by clicking the first card of the initial page.\<close>

theorem selected_key_valid_when_reachable_witness:
  "reachable (selectProject ''ecommerce'' initial)
   \<and> currentView (selectProject ''ecommerce'' initial) = ''project''
   \<and> (\<exists>k. selectedProject (selectProject ''ecommerce'' initial) = Some k \<and> k \<in> set (map fst projects))"
proof -
  obtain h where h: "HomePage projects = Inr h"
      "map fst (clickables h) = [CardClick ''ecommerce'', CardClick ''blogging'']"
    by (rule HomePage_view)
  have home: "currentView initial = ''home''" by (simp add: initial_def)
  have v: "Portfolio projects initial = Inr (page_shell [h])"
    unfolding Portfolio_home[OF home] h(1) by (simp add: ebind_def)
  have c: "CardClick ''ecommerce'' \<in> set (map fst (clickables (page_shell [h])))"
    unfolding page_shell_clickables using h(2) by simp
  have r: "reachable (selectProject ''ecommerce'' initial)"
    using reachable.click[OF reachable.start v c] by simp
  have p: "currentView (selectProject ''ecommerce'' initial) = ''project''"
    by (simp add: selectProject_state)
  from r p selected_key_valid_when_reachable[OF r p] show ?thesis by (intro conjI)
qed

text \<open>
  Claim C3 says that for an identifier outside the registry \<open>selectProject\<close> leads to a
  degraded detail page and to no error. At the identifier \<open>unknown\<close> the render pass
  throws instead: \<open>ProjectDetail\<close> receives \<^verbatim>\<open>undefined\<close> and reads its \<^verbatim>\<open>title\<close>.
\<close>

theorem unknown_project_counterexample:
  "map_of projects ''unknown'' = None
   \<and> Portfolio projects (selectProject ''unknown'' initial) = Inl TypeError"
proof -
  have m: "map_of projects ''unknown'' = None" by (simp add: projects_def)
  have "Portfolio projects (selectProject ''unknown'' initial)
      = ebind (ProjectDetail (Some ''unknown'') (get_project projects ''unknown'')) (\<lambda>d. Inr (page_shell [d]))"
    by (rule Portfolio_project[OF selectProject_state]) simp
  then show ?thesis using m by (simp add: ProjectDetail_no_record ebind_def)
qed

text \<open>
  Claim C3, amended. For every identifier \<open>k\<close> that is not a key of the registry,
  \<open>selectProject k\<close> stores \<open>k\<close> and switches to the project view, and no detail
  page is rendered from that state: for the empty identifier the page is the empty shell,
  and for every other one the render pass throws a \<^verbatim>\<open>TypeError\<close>.
\<close>

theorem unknown_project_throws:
  assumes "map_of projects k = None"
  shows "currentView (selectProject k st) = ''project''
     \<and> selectedProject (selectProject k st) = Some k
     \<and> Portfolio projects (selectProject k st)
         = (if k = [] then Inr (page_shell []) else Inl TypeError)"
proof (cases "k = []")
  case True
  have "Portfolio projects (selectProject k st) = Inr (page_shell [])"
    by (rule Portfolio_empty) (simp_all add: selectProject_state True)
  with True show ?thesis by (simp add: selectProject_state)
next
  case False
  have "Portfolio projects (selectProject k st)
      = ebind (ProjectDetail (Some k) (get_project projects k)) (\<lambda>d. Inr (page_shell [d]))"
    by (rule Portfolio_project[OF selectProject_state False])
  with False show ?thesis
    by (simp add: ProjectDetail_no_record[OF assms] ebind_def selectProject_state)
qed

text \<open>The amended claim C3 at \<open>constructor\<close>, a name inherited from \<^verbatim>\<open>Object.prototype\<close>.\<close>

theorem unknown_project_throws_witness:
  "map_of projects ''constructor'' = None
   \<and> currentView (selectProject ''constructor'' initial) = ''project''
   \<and> selectedProject (selectProject ''constructor'' initial) = Some ''constructor''
   \<and> Portfolio projects (selectProject ''constructor'' initial) = Inl TypeError"
proof -
  have m: "map_of projects ''constructor'' = None" by (simp add: projects_def)
  from m unknown_project_throws[OF m, of initial] show ?thesis by simp
qed

text \<open>
  Claim C4. A fresh session has \<open>currentView = home\<close>, and its page is the shell around
  the home view. The clickable elements of that page are exactly two project cards, in
  the order of the registry's keys, and their titles are "E-Commerce System" and
  "Microservices Blogging Platform".
\<close>

theorem fresh_session_home_view:
  "currentView initial = ''home'' \<and> selectedProject initial = None
   \<and> (\<exists>h. HomePage projects = Inr h
         \<and> Portfolio projects initial = Inr (page_shell [h])
         \<and> map fst (clickables (page_shell [h])) = map (CardClick \<circ> fst) projects
         \<and> map fst (clickables (page_shell [h])) = [CardClick ''ecommerce'', CardClick ''blogging'']
         \<and> map (headings ''h3'' \<circ> snd) (clickables (page_shell [h]))
             = [[''E-Commerce System''], [''Microservices Blogging Platform'']]
         \<and> headings ''h3'' (page_shell [h])
             = [''E-Commerce System'', ''Microservices Blogging Platform''])"
proof -
  obtain h where h: "HomePage projects = Inr h"
     "map fst (clickables h) = [CardClick ''ecommerce'', CardClick ''blogging'']"
     "map (headings ''h3'' \<circ> snd) (clickables h) = [[title ecommerce], [title blogging]]"
     "headings ''h3'' h = [title ecommerce, title blogging]"
    by (rule HomePage_view)
  have home: "currentView initial = ''home''" by (simp add: initial_def)
  have v: "Portfolio projects initial = Inr (page_shell [h])"
    unfolding Portfolio_home[OF home] h(1) by (simp add: ebind_def)
  have t: "title ecommerce = ''E-Commerce System''" "title blogging = ''Microservices Blogging Platform''"
    by (simp_all add: ecommerce_def blogging_def)
  have c: "clickables (page_shell [h]) = clickables h" by (simp add: page_shell_clickables)
  have k: "map (CardClick \<circ> fst) projects = [CardClick ''ecommerce'', CardClick ''blogging'']"
    by (simp add: projects_def)
  have e: "headings ''h3'' (page_shell [h]) = headings ''h3'' h" by (simp add: page_shell_headings)
  have s: "selectedProject initial = None" by (simp add: initial_def)
  have 1: "map fst (clickables (page_shell [h])) = map (CardClick \<circ> fst) projects"
    unfolding c k by (rule h(2))
  have 2: "map fst (clickables (page_shell [h])) = [CardClick ''ecommerce'', CardClick ''blogging'']"
    unfolding c by (rule h(2))
  have 3: "map (headings ''h3'' \<circ> snd) (clickables (page_shell [h]))
             = [[''E-Commerce System''], [''Microservices Blogging Platform'']]"
    unfolding c h(3) t by (rule refl)
  have 4: "headings ''h3'' (page_shell [h])
             = [''E-Commerce System'', ''Microservices Blogging Platform'']"
    unfolding e h(4) t by (rule refl)
  from home s h(1) v 1 2 3 4 show ?thesis by (intro conjI exI[of _ h])
qed

text \<open>
  Claim C5. \<open>selectProject k\<close> followed by \<open>goHome\<close> gives a state with
  \<open>currentView = home\<close> whose page equals the page of the initial state, for the
  program's registry (where it is the home view, rendered without an error) and for any
  other one. It holds for every identifier \<open>k\<close> and every starting state, the keys of the
  registry among them. Both handlers map a state to a state: the registry is no part of
  what they can write.
\<close>

theorem round_trip_home:
  "currentView (goHome (selectProject k st)) = ''home''
   \<and> Portfolio reg (goHome (selectProject k st)) = Portfolio reg initial
   \<and> (\<exists>h. HomePage projects = Inr h
         \<and> Portfolio projects (goHome (selectProject k st)) = Inr (page_shell [h]))"
proof -
  have home: "currentView (goHome (selectProject k st)) = ''home''" by (rule goHome_state)
  obtain h where h: "HomePage projects = Inr h" by (rule HomePage_view)
  have "Portfolio projects (goHome (selectProject k st)) = Inr (page_shell [h])"
    unfolding Portfolio_home[OF home] h by (simp add: ebind_def)
  with h home Portfolio_home_state[OF home, of reg] show ?thesis by (intro conjI exI[of _ h])
qed

text \<open>
  Claim C6. For a key \<open>k\<close> of the registry with record \<open>r\<close>, the last section
  heading of the page after \<open>selectProject k\<close> is "What's Next" when \<open>k\<close> is
  \<open>ecommerce\<close> and "Lessons Learned" otherwise; \<open>ecommerce\<close> is the key whose record
  has the status "In Progress", and \<open>blogging\<close> the one whose record has the status
  "Completed".
\<close>

theorem final_heading_by_project:
  assumes "map_of projects k = Some r"
  shows "(\<exists>d. Portfolio projects (selectProject k st) = Inr (page_shell [d])
           \<and> final_heading (page_shell [d])
               = Some (if k = ''ecommerce'' then ''What's Next'' else ''Lessons Learned''))
     \<and> (k = ''ecommerce'' \<longleftrightarrow> status r = ''In Progress'')
     \<and> (k = ''blogging'' \<longleftrightarrow> status r = ''Completed'')"
proof -
  obtain d where d: "ProjectDetail (Some k) (Project r) = Inr d"
    by (simp add: ProjectDetail_Project)
  have v: "Portfolio projects (selectProject k st) = Inr (page_shell [d])"
    unfolding Portfolio_registered[OF assms] d by (simp add: ebind_def)
  have f: "final_heading (page_shell [d])
      = Some (if k = ''ecommerce'' then ''What's Next'' else ''Lessons Learned'')"
    using final_heading_detail[OF d] by simp
  from assms consider "k = ''ecommerce''" "r = ecommerce" | "k = ''blogging''" "r = blogging"
    unfolding registry_keys by (elim disjE conjE)
  then have s: "(k = ''ecommerce'' \<longleftrightarrow> status r = ''In Progress'')
      \<and> (k = ''blogging'' \<longleftrightarrow> status r = ''Completed'')"
    by cases (simp_all add: registry_status)
  from v f have "\<exists>d. Portfolio projects (selectProject k st) = Inr (page_shell [d])
           \<and> final_heading (page_shell [d])
               = Some (if k = ''ecommerce'' then ''What's Next'' else ''Lessons Learned'')"
    by (intro exI[of _ d] conjI)
  with s show ?thesis by (intro conjI) simp_all
qed

text \<open>Claim C6 at the key \<open>ecommerce\<close>, from the initial state.\<close>

theorem final_heading_by_project_witness:
  "map_of projects ''ecommerce'' = Some ecommerce
   \<and> (\<exists>d. Portfolio projects (selectProject ''ecommerce'' initial) = Inr (page_shell [d])
         \<and> final_heading (page_shell [d]) = Some ''What's Next'')
   \<and> status ecommerce = ''In Progress''"
proof -
  have h: "map_of projects ''ecommerce'' = Some ecommerce" by (simp add: projects_def)
  from h final_heading_by_project[OF h, of initial] show ?thesis by simp
qed

text \<open>
  Claim C7. \<open>goHome\<close> sets \<open>currentView\<close> to \<open>home\<close> and leaves
  \<open>selectedProject\<close> as it was: the handler writes one state cell only. In particular
  the key stored by an earlier \<open>selectProject\<close> is still stored after \<open>goHome\<close>.
\<close>

theorem goHome_keeps_selectedProject:
  "goHome st = st\<lparr>currentView := ''home''\<rparr>
   \<and> currentView (goHome st) = ''home''
   \<and> selectedProject (goHome st) = selectedProject st
   \<and> selectedProject (goHome (selectProject k st)) = Some k"
  by (simp add: goHome_def selectProject_def setCurrentView_def setSelectedProject_def)

text \<open>
  Claim C8. For every project record \<open>r\<close>, whatever its fields hold, and every value of
  \<open>selectedProject\<close>, the detail view renders without an error and its sections are, in
  this order, Problem, Architecture, Key Decisions, Failure Modes and the list under the
  final label. Each section shows the field it is named after: the paragraphs are the
  problem text, the architecture items, the reasoning and trade-off of every decision, the
  failure items and the items of \<open>next\<close>, and the decisions' third-level headings are
  their \<open>choice\<close>s.
\<close>

theorem detail_sections_fixed_order:
  "\<exists>d. ProjectDetail sel (Project r) = Inr d
     \<and> headings ''h2'' d
         = [''Problem'', ''Architecture'', ''Key Decisions'', ''Failure Modes'',
            if sel = Some ''ecommerce'' then ''What's Next'' else ''Lessons Learned'']
     \<and> map (headings ''h2'') (elems ''section'' d)
         = [[''Problem''], [''Architecture''], [''Key Decisions''], [''Failure Modes''],
            [if sel = Some ''ecommerce'' then ''What's Next'' else ''Lessons Learned'']]
     \<and> map (headings ''p'') (elems ''section'' d)
         = [[problem r], architecture r,
            concat (map (\<lambda>c. [reasoning c, ''Trade-off: '' @ tradeoff c]) (decisions r)),
            failures r, next r]
     \<and> map (headings ''h3'') (elems ''section'' d)
         = [[], [], map choice (decisions r), [], []]"
proof -
  obtain d where d: "ProjectDetail sel (Project r) = Inr d"
    by (simp add: ProjectDetail_Project)
  from d ProjectDetail_h2[OF d] ProjectDetail_sections[OF d] show ?thesis
    by (intro exI[of _ d] conjI)
qed

text \<open>
  Claim C9. From any state, \<open>goHome\<close> twice gives the state that \<open>goHome\<close> once
  gives, with \<open>currentView = home\<close>. \<open>goHome\<close> is a total function on states, and
  the page of the resulting state renders without an error: it is the home view.
\<close>

theorem goHome_idempotent:
  "goHome (goHome st) = goHome st
   \<and> currentView (goHome (goHome st)) = ''home''
   \<and> Portfolio reg (goHome (goHome st)) = Portfolio reg (goHome st)
   \<and> (\<exists>h. HomePage projects = Inr h
         \<and> Portfolio projects (goHome (goHome st)) = Inr (page_shell [h]))"
proof -
  have i: "goHome (goHome st) = goHome st" by (simp add: goHome_def setCurrentView_def)
  have home: "currentView (goHome st) = ''home''" by (rule goHome_state)
  obtain h where h: "HomePage projects = Inr h" by (rule HomePage_view)
  have "Portfolio projects (goHome st) = Inr (page_shell [h])"
    unfolding Portfolio_home[OF home] h by (simp add: ebind_def)
  with h home show ?thesis unfolding i by (intro conjI exI[of _ h] refl)
qed

text \<open>
  Claim C10. In the state with \<open>currentView = project\<close> and \<open>selectedProject = null\<close>
  the render pass succeeds and gives the empty page shell: neither the home view nor a
  detail view is among its children. This holds for every registry whatsoever, so the
  result does not come from any read of the registry.
\<close>

theorem null_selection_renders_shell:
  "Portfolio reg \<lparr>currentView = ''project'', selectedProject = None\<rparr> = Inr (page_shell [])"
  by (rule Portfolio_empty) simp_all

end
